theory Spec2Isabelle
  imports Complex_Main
begin

section \<open>Python values and exceptions\<close>

text \<open>
  The broker adapter of \<^verbatim>\<open>src/broker/webull/webull_broker.py\<close> and the factory of
  \<^verbatim>\<open>src/broker/broker_factory.py\<close>, embedded as functions of HOL.

  A value read from a decoded vendor payload is \<open>None\<close>, a number or text. The numbers
  of a payload and the amount of a purchase are exact rationals: a finite Python
  \<open>float\<close> or \<open>int\<close> is one, and their arithmetic is exact (the rounding of IEEE
  arithmetic is not modelled). The quantity of a sale is a \<open>float\<close> as the caller may
  pass it: a finite number, an infinity or NaN.
\<close>

datatype pyval = PNone | PNum rat | PStr string

datatype exn =
    TypeError
  | ValueError
  | ZeroDivisionError
  | AttributeError
  | OverflowError
  | ClientError string  \<comment> \<open>an exception raised inside the vendor client, e.g. by its transport\<close>

text \<open>Truth value testing: \<open>None\<close>, zero and the empty string are false.\<close>

fun truthy :: "pyval \<Rightarrow> bool" where
  "truthy PNone = False"
| "truthy (PNum r) = (r \<noteq> 0)"
| "truthy (PStr s) = (s \<noteq> [])"

text \<open>\<open>a or b\<close>: the first operand when it is true, the second otherwise.\<close>

definition py_or :: "pyval \<Rightarrow> pyval \<Rightarrow> pyval" where
  "py_or a b = (if truthy a then a else b)"

text \<open>
  \<open>float(v)\<close>. What the builtin reads from a piece of text is the parameter \<open>rd\<close>
  (\<open>None\<close> where it raises \<open>ValueError\<close>); \<open>float(None)\<close> raises \<open>TypeError\<close>.
\<close>

fun py_float :: "(string \<Rightarrow> rat option) \<Rightarrow> pyval \<Rightarrow> exn + rat" where
  "py_float rd PNone = Inl TypeError"
| "py_float rd (PNum r) = Inr r"
| "py_float rd (PStr s) = (case rd s of None \<Rightarrow> Inl ValueError | Some r \<Rightarrow> Inr r)"

text \<open>\<open>int(x)\<close> of a number: truncation toward zero.\<close>

definition py_int :: "rat \<Rightarrow> int" where
  "py_int x = (if 0 \<le> x then \<lfloor>x\<rfloor> else \<lceil>x\<rceil>)"

text \<open>
  A \<open>float\<close> argument. \<open>int(x)\<close> truncates a finite one toward zero and raises
  \<open>OverflowError\<close> on an infinity and \<open>ValueError\<close> on NaN.
\<close>

datatype pyfloat = Finite rat | PosInf | NegInf | NaN

fun float_int :: "pyfloat \<Rightarrow> exn + int" where
  "float_int (Finite x) = Inr (py_int x)"
| "float_int PosInf = Inl OverflowError"
| "float_int NegInf = Inl OverflowError"
| "float_int NaN = Inl ValueError"

text \<open>\<open>a / b\<close> where \<open>b\<close> may be \<open>None\<close> (line 219 of the adapter).\<close>

fun py_truediv :: "rat \<Rightarrow> rat option \<Rightarrow> exn + rat" where
  "py_truediv a None = Inl TypeError"
| "py_truediv a (Some b) = (if b = 0 then Inl ZeroDivisionError else Inr (a / b))"

text \<open>A decoded JSON object is a dictionary; \<open>d.get(k, default)\<close> is \<open>getd\<close>.\<close>

type_synonym obj = "string \<rightharpoonup> pyval"

definition getd :: "obj \<Rightarrow> string \<Rightarrow> pyval \<Rightarrow> pyval" where
  "getd d k dflt = (case d k of None \<Rightarrow> dflt | Some v \<Rightarrow> v)"

section \<open>The vendor client\<close>

text \<open>
  A request either raises inside the client or returns a response with a status code
  and a body; \<open>response.json()\<close> decodes the body or raises.
\<close>

datatype 'a reply = Raises exn | Reply int "exn + 'a"

text \<open>
  The order dictionary handed to \<open>place_order_v2\<close>: the account and the fields under
  its key \<open>stock_order\<close>. Record fields are constants of the theory, so they carry a
  prefix and the parameters of the functions keep the names of the source.
\<close>

record stock_order =
  o_account_id :: pyval
  o_client_order_id :: string
  o_instrument_id :: pyval
  o_side :: string
  o_tif :: string
  o_order_type :: string
  o_qty :: int

text \<open>
  What the adapter and the factory do to the outside, in the order they do it: the
  requests sent to the vendor, and the entry into the constructor of an adapter class.
\<close>

datatype call =
    Construct string
  | GetAppSubscriptions
  | GetAccountList string
  | GetInstrument string string
  | GetAccountPosition pyval
  | GetAccountBalance pyval
  | PlaceOrder stock_order

text \<open>
  The environment of one call of the adapter: what each endpoint answers, and the
  hexadecimal digits of the UUID the call draws. The body of a position response is
  the list under its key \<open>holdings\<close>, \<open>None\<close> when the key is absent.
\<close>

record env =
  get_app_subscriptions :: "obj list reply"
  get_account_list :: "string \<Rightarrow> obj list reply"
  get_instrument :: "string \<Rightarrow> string \<Rightarrow> obj list reply"
  get_account_position :: "pyval \<Rightarrow> obj list option reply"
  get_account_balance :: "pyval \<Rightarrow> obj reply"
  place_order_v2 :: "stock_order \<Rightarrow> obj reply"
  uuid4_hex :: string

section \<open>Computations: a result or an exception, and the trace\<close>

type_synonym 'a comp = "(exn + 'a) \<times> call list"

definition ret :: "'a \<Rightarrow> 'a comp" where
  "ret x = (Inr x, [])"

definition throw :: "exn \<Rightarrow> 'a comp" where
  "throw e = (Inl e, [])"

definition lift :: "exn + 'a \<Rightarrow> 'a comp" where
  "lift r = (r, [])"

definition bind :: "'a comp \<Rightarrow> ('a \<Rightarrow> 'b comp) \<Rightarrow> 'b comp" where
  "bind m f =
     (case m of
        (Inl e, t) \<Rightarrow> (Inl e, t)
      | (Inr x, t) \<Rightarrow> (case f x of (r, t') \<Rightarrow> (r, t @ t')))"

text \<open>\<open>try: m except Exception as e: h e\<close>.\<close>

definition try_except :: "'a comp \<Rightarrow> (exn \<Rightarrow> 'a comp) \<Rightarrow> 'a comp" where
  "try_except m h =
     (case m of
        (Inl e, t) \<Rightarrow> (case h e of (r, t') \<Rightarrow> (r, t @ t'))
      | (Inr x, t) \<Rightarrow> (Inr x, t))"

text \<open>Sending request \<open>c\<close>, which the vendor answers with \<open>r\<close>.\<close>

fun request :: "call \<Rightarrow> 'a reply \<Rightarrow> (int \<times> (exn + 'a)) comp" where
  "request c (Raises e) = (Inl e, [c])"
| "request c (Reply status_code body) = (Inr (status_code, body), [c])"

text \<open>Entering the constructor of the adapter class \<open>cls\<close>.\<close>

definition enter :: "string \<Rightarrow> unit comp" where
  "enter cls = (Inr (), [Construct cls])"

section \<open>The Webull adapter\<close>

record webull_broker =
  wb_app_key :: pyval
  wb_app_secret :: pyval
  wb_account_id :: pyval

text \<open>
  \<open>WebullBroker.__init__\<close> (lines 19 to 77). \<open>region.upper()\<close> needs a region that is
  text and raises \<open>AttributeError\<close> otherwise, outside the \<open>try\<close>; the region chosen only
  configures the client object of the SDK and is not kept. The account identifier is
  the one given, else the first subscription's, else the first account's.
\<close>

definition webull_init ::
  "env \<Rightarrow> pyval \<Rightarrow> pyval \<Rightarrow> pyval \<Rightarrow> pyval \<Rightarrow> webull_broker comp" where
  "webull_init v app_key app_secret account_id region =
     (case region of
        PNone \<Rightarrow> throw AttributeError
      | PNum r \<Rightarrow> throw AttributeError
      | PStr region_text \<Rightarrow>
     try_except
       (bind
          (if \<not> truthy account_id then
             bind (request GetAppSubscriptions (get_app_subscriptions v))
               (\<lambda>(status_code, body).
                  bind
                    (if status_code = 200 then
                       bind (lift body) (\<lambda>subscriptions.
                         case subscriptions of
                           [] \<Rightarrow> ret account_id
                         | s # _ \<Rightarrow> ret (getd s ''account_id'' PNone))
                     else ret account_id)
                    (\<lambda>account_id.
                       bind
                         (if \<not> truthy account_id then
                            bind (request (GetAccountList []) (get_account_list v []))
                              (\<lambda>(status_code, body).
                                 if status_code = 200 then
                                   bind (lift body) (\<lambda>accounts.
                                     case accounts of
                                       [] \<Rightarrow> ret account_id
                                     | a # _ \<Rightarrow> ret (getd a ''account_id'' PNone))
                                 else ret account_id)
                          else ret account_id)
                         (\<lambda>account_id.
                            if \<not> truthy account_id then throw ValueError
                            else ret account_id)))
           else ret account_id)
          (\<lambda>account_id.
             ret \<lparr> wb_app_key = app_key, wb_app_secret = app_secret,
                   wb_account_id = account_id \<rparr>))
       (\<lambda>e. throw e))"

text \<open>\<open>WebullBroker._get_instrument_id\<close> (lines 79 to 101).\<close>

definition get_instrument_id :: "env \<Rightarrow> string \<Rightarrow> pyval comp" where
  "get_instrument_id v symbol =
     try_except
       (bind (request (GetInstrument symbol ''US_STOCK'') (get_instrument v symbol ''US_STOCK''))
          (\<lambda>(status_code, body).
             if status_code = 200 then
               bind (lift body) (\<lambda>instruments.
                 case instruments of
                   [] \<Rightarrow> ret PNone
                 | i # _ \<Rightarrow> ret (getd i ''instrument_id'' PNone))
             else ret PNone))
       (\<lambda>e. ret PNone)"

text \<open>
  Modelled from the spec: \<open>Allocation\<close> (its module \<open>models\<close> is not among the
  sources), a plain value of a symbol, a quantity, a current price and a market value.
\<close>

record allocation =
  a_symbol :: pyval
  a_quantity :: rat
  a_current_price :: rat
  a_market_value :: rat

text \<open>\<open>positions_data.get("holdings", [])\<close>.\<close>

definition holdings_of :: "obj list option \<Rightarrow> obj list" where
  "holdings_of positions_data = (case positions_data of None \<Rightarrow> [] | Some hs \<Rightarrow> hs)"

text \<open>
  The loop of \<open>get_current_allocation\<close> (lines 115 to 127), with the list
  \<open>allocations\<close> built so far; a conversion that raises ends it.
\<close>

fun allocations_loop ::
  "(string \<Rightarrow> rat option) \<Rightarrow> obj list \<Rightarrow> allocation list \<Rightarrow> exn + allocation list" where
  "allocations_loop rd [] allocations = Inr allocations"
| "allocations_loop rd (holding # holdings) allocations =
     (let symbol = getd holding ''symbol'' PNone in
      case py_float rd (getd holding ''qty'' (PNum 0)) of
        Inl e \<Rightarrow> Inl e
      | Inr quantity \<Rightarrow>
      (case py_float rd (getd holding ''last_price'' (PNum 0)) of
        Inl e \<Rightarrow> Inl e
      | Inr last_price \<Rightarrow>
      (case py_float rd (getd holding ''market_value'' (PNum 0)) of
        Inl e \<Rightarrow> Inl e
      | Inr market_value \<Rightarrow>
          allocations_loop rd holdings
            (if quantity > 0 \<and> truthy symbol \<and> last_price > 0
             then allocations @
                    [\<lparr> a_symbol = symbol, a_quantity = quantity,
                        a_current_price = last_price, a_market_value = market_value \<rparr>]
             else allocations))))"

text \<open>\<open>WebullBroker.get_current_allocation\<close> (lines 103 to 133).\<close>

definition get_current_allocation ::
  "(string \<Rightarrow> rat option) \<Rightarrow> env \<Rightarrow> webull_broker \<Rightarrow> allocation list comp" where
  "get_current_allocation rd v self =
     try_except
       (bind (request (GetAccountPosition (wb_account_id self))
                (get_account_position v (wb_account_id self)))
          (\<lambda>(status_code, body).
             if status_code \<noteq> 200 then ret []
             else
               bind (lift body) (\<lambda>positions_data.
                 let holdings = holdings_of positions_data
                 in lift (allocations_loop rd holdings []))))
       (\<lambda>e. throw e)"

text \<open>
  \<open>WebullBroker.sell\<close> (lines 135 to 172). \<open>int(quantity)\<close> is evaluated at line 156,
  while the order dictionary is built inside the \<open>try\<close>.
\<close>

definition sell :: "env \<Rightarrow> webull_broker \<Rightarrow> string \<Rightarrow> pyfloat \<Rightarrow> bool comp" where
  "sell v self symbol quantity =
     try_except
       (bind (get_instrument_id v symbol) (\<lambda>instrument_id.
          if \<not> truthy instrument_id then ret False
          else
            let client_order_id = ''sell_'' @ symbol @ ''_'' @ take 16 (uuid4_hex v)
            in bind (lift (float_int quantity)) (\<lambda>qty.
                 let stock_order = \<lparr>
                       o_account_id = wb_account_id self,
                       o_client_order_id = client_order_id,
                       o_instrument_id = instrument_id,
                       o_side = ''SELL'',
                       o_tif = ''DAY'',
                       o_order_type = ''MARKET'',
                       o_qty = qty \<rparr>
                 in bind (request (PlaceOrder stock_order) (place_order_v2 v stock_order))
                      (\<lambda>(status_code, body).
                         if status_code = 200 then bind (lift body) (\<lambda>result. ret True)
                         else ret False))))
       (\<lambda>e. ret False)"

text \<open>
  The loop of \<open>buy\<close> over the holdings (lines 191 to 195), with the variable
  \<open>last_price\<close> as state: it returns how the loop ended and the value the variable
  then has. A conversion that raises leaves the variable as it was.
\<close>

fun scan_holdings ::
  "(string \<Rightarrow> rat option) \<Rightarrow> string \<Rightarrow> obj list \<Rightarrow> rat option \<Rightarrow> (exn + unit) \<times> rat option" where
  "scan_holdings rd symbol [] last_price = (Inr (), last_price)"
| "scan_holdings rd symbol (holding # holdings) last_price =
     (if getd holding ''symbol'' PNone = PStr symbol then
        (case py_float rd (getd holding ''last_price'' (PNum 0)) of
           Inl e \<Rightarrow> (Inl e, last_price)
         | Inr p \<Rightarrow>
             if p > 0 then (Inr (), Some p)
             else scan_holdings rd symbol holdings (Some p))
      else scan_holdings rd symbol holdings last_price)"

text \<open>
  The inner \<open>try\<close> of \<open>buy\<close> (lines 185 to 197): \<open>last_price\<close> starts as \<open>None\<close>, and
  whatever is raised inside is logged and dropped.
\<close>

definition price_from_positions ::
  "(string \<Rightarrow> rat option) \<Rightarrow> env \<Rightarrow> webull_broker \<Rightarrow> string \<Rightarrow> rat option comp" where
  "price_from_positions rd v self symbol =
     (case request (GetAccountPosition (wb_account_id self))
             (get_account_position v (wb_account_id self)) of
        (Inl e, t) \<Rightarrow> (Inr None, t)
      | (Inr (status_code, body), t) \<Rightarrow>
          if status_code = 200 then
            (case body of
               Inl e \<Rightarrow> (Inr None, t)
             | Inr positions_data \<Rightarrow>
                 let holdings = holdings_of positions_data
                 in (Inr (snd (scan_holdings rd symbol holdings None)), t))
          else (Inr None, t))"

text \<open>
  \<open>WebullBroker.buy\<close> (lines 174 to 252). The quantity of lines 202 to 217 is computed
  and then assigned again at line 219.
\<close>

definition buy ::
  "(string \<Rightarrow> rat option) \<Rightarrow> env \<Rightarrow> webull_broker \<Rightarrow> string \<Rightarrow> rat \<Rightarrow> bool comp" where
  "buy rd v self symbol amount =
     try_except
       (bind (get_instrument_id v symbol) (\<lambda>instrument_id.
          if \<not> truthy instrument_id then ret False
          else
            bind (price_from_positions rd v self symbol) (\<lambda>last_price.
              let quantity =
                    (case last_price of
                       None \<Rightarrow> max 1 (py_int (amount / 50))
                     | Some p \<Rightarrow>
                         if p = 0 then max 1 (py_int (amount / 50))
                         else max 1 (py_int (amount / p)))
              in bind (lift (py_truediv amount last_price)) (\<lambda>ratio.
                   let quantity = py_int ratio in
                   if quantity = 0 then ret False
                   else
                     let client_order_id = ''buy_'' @ symbol @ ''_'' @ take 16 (uuid4_hex v);
                         stock_order = \<lparr>
                           o_account_id = wb_account_id self,
                           o_client_order_id = client_order_id,
                           o_instrument_id = instrument_id,
                           o_side = ''BUY'',
                           o_tif = ''DAY'',
                           o_order_type = ''MARKET'',
                           o_qty = quantity \<rparr>
                     in bind (request (PlaceOrder stock_order) (place_order_v2 v stock_order))
                          (\<lambda>(status_code, body).
                             if status_code = 200 then bind (lift body) (\<lambda>result. ret True)
                             else ret False)))))
       (\<lambda>e. ret False)"

text \<open>\<open>WebullBroker.get_account_cash\<close> (lines 254 to 277).\<close>

definition get_account_cash ::
  "(string \<Rightarrow> rat option) \<Rightarrow> env \<Rightarrow> webull_broker \<Rightarrow> rat comp" where
  "get_account_cash rd v self =
     try_except
       (bind (request (GetAccountBalance (wb_account_id self))
                (get_account_balance v (wb_account_id self)))
          (\<lambda>(status_code, body).
             if status_code \<noteq> 200 then throw ValueError
             else
               bind (lift body) (\<lambda>balance_data.
                 let cash =
                       py_or (py_or (py_or (py_or
                         (getd balance_data ''stock_power'' (PNum 0))
                         (getd balance_data ''available_to_withdraw'' (PNum 0)))
                         (getd balance_data ''settled_cash'' (PNum 0)))
                         (getd balance_data ''total_cash'' (PNum 0)))
                         (PNum 0)
                 in lift (py_float rd cash))))
       (\<lambda>e. throw e)"

section \<open>The broker factory\<close>

text \<open>
  Modelled from the spec: the configuration object (its module \<open>config\<close> is not among
  the sources), with the fields \<open>create_broker\<close> reads; a field is text or \<open>None\<close>.
\<close>

record config =
  broker_type :: pyval
  alpaca_api_key :: pyval
  alpaca_api_secret :: pyval
  alpaca_base_url :: pyval
  robinhood_username :: pyval
  robinhood_password :: pyval
  robinhood_mfa_code :: pyval
  webull_app_key :: pyval
  webull_app_secret :: pyval
  webull_account_id :: pyval
  webull_region :: pyval

datatype ('a, 'r) broker = AlpacaBroker 'a | RobinhoodBroker 'r | WebullBroker webull_broker

text \<open>
  \<open>create_broker\<close> (lines 15 to 60). The constructors of the Alpaca and the Robinhood
  adapters are not among the sources and are parameters.
\<close>

definition create_broker ::
  "(pyval \<Rightarrow> pyval \<Rightarrow> pyval \<Rightarrow> 'a comp) \<Rightarrow> (pyval \<Rightarrow> pyval \<Rightarrow> pyval \<Rightarrow> 'r comp) \<Rightarrow>
   env \<Rightarrow> config \<Rightarrow> ('a, 'r) broker comp" where
  "create_broker alpaca_init robinhood_init v c =
     (if broker_type c = PStr ''alpaca'' then
        if \<not> truthy (alpaca_api_key c) \<or> \<not> truthy (alpaca_api_secret c)
        then throw ValueError
        else
          bind (enter ''AlpacaBroker'')
            (\<lambda>_. bind (alpaca_init (alpaca_api_key c) (alpaca_api_secret c) (alpaca_base_url c))
                     (\<lambda>b. ret (AlpacaBroker b)))
      else if broker_type c = PStr ''robinhood'' then
        if \<not> truthy (robinhood_username c) \<or> \<not> truthy (robinhood_password c)
        then throw ValueError
        else
          bind (enter ''RobinhoodBroker'')
            (\<lambda>_. bind (robinhood_init (robinhood_username c) (robinhood_password c)
                          (robinhood_mfa_code c))
                     (\<lambda>b. ret (RobinhoodBroker b)))
      else if broker_type c = PStr ''webull'' then
        if \<not> truthy (webull_app_key c) \<or> \<not> truthy (webull_app_secret c)
        then throw ValueError
        else
          bind (enter ''WebullBroker'')
            (\<lambda>_. bind (webull_init v (webull_app_key c) (webull_app_secret c)
                          (webull_account_id c) (webull_region c))
                     (\<lambda>b. ret (WebullBroker b)))
      else throw ValueError)"

section \<open>Notions of the specification\<close>

text \<open>
  These definitions follow the words of the specification; the theorems below compare
  them with the functions above.
\<close>

text \<open>The number \<open>float\<close> reads from a value; zero stands in where it raises.\<close>

definition reading :: "(string \<Rightarrow> rat option) \<Rightarrow> pyval \<Rightarrow> rat" where
  "reading rd x = (case py_float rd x of Inl e \<Rightarrow> 0 | Inr r \<Rightarrow> r)"





text \<open>The balance fields in their order of preference, and their values.\<close>

definition cash_fields :: "string list" where
  "cash_fields = [''stock_power'', ''available_to_withdraw'', ''settled_cash'', ''total_cash'']"

definition cash_values :: "obj \<Rightarrow> pyval list" where
  "cash_values balance_data = map (\<lambda>k. getd balance_data k (PNum 0)) cash_fields"

text \<open>The first non-zero number of a list, zero when there is none.\<close>

fun first_nonzero :: "rat list \<Rightarrow> rat" where
  "first_nonzero [] = 0"
| "first_nonzero (x # xs) = (if x \<noteq> 0 then x else first_nonzero xs)"

text \<open>The first true value of a list, the number zero when there is none.\<close>

fun first_truthy :: "pyval list \<Rightarrow> pyval" where
  "first_truthy [] = PNum 0"
| "first_truthy (x # xs) = (if truthy x then x else first_truthy xs)"

text \<open>A value that is a number or \<open>None\<close>, not text.\<close>

fun number_or_none :: "pyval \<Rightarrow> bool" where
  "number_or_none (PStr s) = False"
| "number_or_none x = True"

text \<open>
  Whether the positions endpoint answers with success and some holding of the symbol
  has a last price that reads as a number satisfying \<open>P\<close>.
\<close>

definition price_found ::
  "(rat \<Rightarrow> bool) \<Rightarrow> (string \<Rightarrow> rat option) \<Rightarrow> env \<Rightarrow> webull_broker \<Rightarrow> string \<Rightarrow> bool" where
  "price_found P rd v self symbol =
     (case get_account_position v (wb_account_id self) of
        Raises e \<Rightarrow> False
      | Reply status_code body \<Rightarrow>
          status_code = 200 \<and>
          (case body of
             Inl e \<Rightarrow> False
           | Inr positions_data \<Rightarrow>
               list_ex
                 (\<lambda>h. getd h ''symbol'' PNone = PStr symbol \<and>
                      (case py_float rd (getd h ''last_price'' (PNum 0)) of
                         Inl e \<Rightarrow> False
                       | Inr p \<Rightarrow> P p))
                 (holdings_of positions_data)))"

definition positive_price_found ::
  "(string \<Rightarrow> rat option) \<Rightarrow> env \<Rightarrow> webull_broker \<Rightarrow> string \<Rightarrow> bool" where
  "positive_price_found = price_found (\<lambda>p. 0 < p)"

definition negative_price_found ::
  "(string \<Rightarrow> rat option) \<Rightarrow> env \<Rightarrow> webull_broker \<Rightarrow> string \<Rightarrow> bool" where
  "negative_price_found = price_found (\<lambda>p. p < 0)"

definition nonzero_price_found ::
  "(string \<Rightarrow> rat option) \<Rightarrow> env \<Rightarrow> webull_broker \<Rightarrow> string \<Rightarrow> bool" where
  "nonzero_price_found = price_found (\<lambda>p. p \<noteq> 0)"



section \<open>Concrete environments\<close>

text \<open>
  \<open>float\<close> on the texts of the examples: it reads \<open>0.00\<close> as zero and raises on the
  others (symbols and identifiers).
\<close>

definition float_of_text :: "string \<Rightarrow> rat option" where
  "float_of_text s = (if s = ''0.00'' then Some 0 else None)"

definition example_broker :: webull_broker where
  "example_broker =
     \<lparr> wb_app_key = PStr ''KEY'', wb_app_secret = PStr ''SECRET'',
       wb_account_id = PStr ''ACC'' \<rparr>"

text \<open>
  A vendor that answers the instrument, position, balance and order requests as
  given, whatever their arguments.
\<close>

definition vendor ::
  "obj list reply \<Rightarrow> obj list option reply \<Rightarrow> obj reply \<Rightarrow> obj reply \<Rightarrow> env" where
  "vendor instrument_reply position_reply balance_reply order_reply =
     \<lparr> get_app_subscriptions = Reply 200 (Inr []),
       get_account_list = (\<lambda>s. Reply 200 (Inr [])),
       get_instrument = (\<lambda>s category. instrument_reply),
       get_account_position = (\<lambda>a. position_reply),
       get_account_balance = (\<lambda>a. balance_reply),
       place_order_v2 = (\<lambda>so. order_reply),
       uuid4_hex = ''0123456789abcdef0123456789abcdef'' \<rparr>"

definition aapl_instrument :: "obj list reply" where
  "aapl_instrument = Reply 200 (Inr [[''instrument_id'' \<mapsto> PStr ''AAPL-ID'']])"

definition order_accepted :: "obj reply" where
  "order_accepted = Reply 200 (Inr [''order_id'' \<mapsto> PStr ''ORDER-ID''])"

definition no_balance :: "obj reply" where
  "no_balance = Reply 200 (Inr Map.empty)"

definition holding :: "pyval \<Rightarrow> pyval \<Rightarrow> pyval \<Rightarrow> pyval \<Rightarrow> obj" where
  "holding symbol qty last_price market_value =
     [''symbol'' \<mapsto> symbol, ''qty'' \<mapsto> qty, ''last_price'' \<mapsto> last_price,
      ''market_value'' \<mapsto> market_value]"

definition positions :: "obj list \<Rightarrow> obj list option reply" where
  "positions holdings = Reply 200 (Inr (Some holdings))"

definition order :: "string \<Rightarrow> string \<Rightarrow> int \<Rightarrow> stock_order" where
  "order side_text prefix quantity =
     \<lparr> o_account_id = PStr ''ACC'',
       o_client_order_id = prefix @ ''0123456789abcdef'',
       o_instrument_id = PStr ''AAPL-ID'', o_side = side_text, o_tif = ''DAY'',
       o_order_type = ''MARKET'', o_qty = quantity \<rparr>"

definition example_config :: "pyval \<Rightarrow> pyval \<Rightarrow> pyval \<Rightarrow> config" where
  "example_config type_text key secret =
     \<lparr> broker_type = type_text,
       alpaca_api_key = PStr ''A-KEY'', alpaca_api_secret = PStr ''A-SECRET'',
       alpaca_base_url = PNone,
       robinhood_username = PStr ''USER'', robinhood_password = PStr ''PASSWORD'',
       robinhood_mfa_code = PNone,
       webull_app_key = key, webull_app_secret = secret,
       webull_account_id = PNone, webull_region = PStr ''US'' \<rparr>"

text \<open>A constructor of another adapter that sends nothing and returns at once.\<close>

definition other_init :: "pyval \<Rightarrow> pyval \<Rightarrow> pyval \<Rightarrow> unit comp" where
  "other_init a b c = ret ()"

definition balance :: "obj \<Rightarrow> obj reply" where
  "balance balance_data = Reply 200 (Inr balance_data)"

definition settled_and_total :: obj where
  "settled_and_total = [''settled_cash'' \<mapsto> PNum 500, ''total_cash'' \<mapsto> PNum 1000]"

definition zero_text_power :: obj where
  "zero_text_power = [''stock_power'' \<mapsto> PStr ''0.00'', ''settled_cash'' \<mapsto> PNum 500]"

definition connection_reset :: "'a reply" where
  "connection_reset = Raises (ClientError ''connection reset'')"

section \<open>Auxiliary facts\<close>

lemmas comp_defs = Let_def try_except_def bind_def ret_def lift_def throw_def

text \<open>The instrument lookup never raises and sends exactly one request.\<close>

lemma get_instrument_id_shape:
  "\<exists>iid. get_instrument_id v symbol = (Inr iid, [GetInstrument symbol ''US_STOCK''])"
  by (cases "get_instrument v symbol ''US_STOCK''")
     (auto simp: get_instrument_id_def try_except_def bind_def ret_def lift_def
           split: sum.splits list.splits)


text \<open>Neither does the search for a price among the positions.\<close>

lemma price_from_positions_shape:
  "\<exists>lp. price_from_positions rd v self symbol =
          (Inr lp, [GetAccountPosition (wb_account_id self)])"
  by (cases "get_account_position v (wb_account_id self)")
     (auto simp: price_from_positions_def Let_def split: sum.splits)


text \<open>
  When no holding of the symbol has a price that reads as a non-zero number, the loop
  leaves \<open>last_price\<close> at \<open>None\<close> or at zero.
\<close>

lemma scan_holdings_zero:
  assumes "\<not> list_ex (\<lambda>h. getd h ''symbol'' PNone = PStr symbol \<and>
                      (case py_float rd (getd h ''last_price'' (PNum 0)) of
                         Inl e \<Rightarrow> False
                       | Inr p \<Rightarrow> p \<noteq> 0)) hs"
    and "lp = None \<or> lp = Some 0"
  shows "snd (scan_holdings rd symbol hs lp) = None \<or>
         snd (scan_holdings rd symbol hs lp) = Some 0"
  using assms
proof (induction hs arbitrary: lp)
  case Nil
  then show ?case by simp
next
  case (Cons h hs)
  show ?case
  proof (cases "getd h ''symbol'' PNone = PStr symbol")
    case False
    with Cons show ?thesis by simp
  next
    case True
    show ?thesis
    proof (cases "py_float rd (getd h ''last_price'' (PNum 0))")
      case (Inl e)
      with True Cons.prems show ?thesis by simp
    next
      case (Inr p)
      with True Cons.prems have "p = 0" by simp
      with True Inr Cons show ?thesis by simp
    qed
  qed
qed

lemma price_none_or_zero:
  assumes "\<not> nonzero_price_found rd v self symbol"
  shows "fst (price_from_positions rd v self symbol) = Inr None \<or>
         fst (price_from_positions rd v self symbol) = Inr (Some 0)"
proof (cases "get_account_position v (wb_account_id self)")
  case (Raises e)
  then show ?thesis by (simp add: price_from_positions_def)
next
  case (Reply status_code body)
  show ?thesis
  proof (cases "status_code = 200")
    case False
    with Reply show ?thesis by (simp add: price_from_positions_def)
  next
    case True
    show ?thesis
    proof (cases body)
      case (Inl e)
      with Reply True show ?thesis by (simp add: price_from_positions_def)
    next
      case (Inr positions_data)
      with Reply True assms
      have "\<not> list_ex (\<lambda>h. getd h ''symbol'' PNone = PStr symbol \<and>
                      (case py_float rd (getd h ''last_price'' (PNum 0)) of
                         Inl e \<Rightarrow> False
                       | Inr p \<Rightarrow> p \<noteq> 0)) (holdings_of positions_data)"
        by (simp add: nonzero_price_found_def price_found_def)
      from scan_holdings_zero [OF this, of None]
      show ?thesis using Reply True Inr by (simp add: price_from_positions_def)
    qed
  qed
qed





text \<open>The chain of \<open>or\<close> picks the first true value.\<close>

lemma py_or_chain:
  "py_or (py_or (py_or (py_or a b) c) d) (PNum 0) = first_truthy [a, b, c, d]"
  by (simp add: py_or_def)

lemma first_truthy_numbers:
  "list_all number_or_none xs \<Longrightarrow>
   py_float rd (first_truthy xs) = Inr (first_nonzero (map (reading rd) xs))"
proof (induction xs)
  case Nil
  then show ?case by simp
next
  case (Cons x xs)
  then show ?case by (cases x) (simp_all add: reading_def)
qed



text \<open>A price that is not zero is positive or negative.\<close>

lemma nonzero_price_positive_or_negative:
  assumes "nonzero_price_found rd v self symbol"
  shows "positive_price_found rd v self symbol \<or> negative_price_found rd v self symbol"
proof (cases "get_account_position v (wb_account_id self)")
  case (Raises e)
  with assms show ?thesis by (simp add: nonzero_price_found_def price_found_def)
next
  case (Reply status_code body)
  show ?thesis
  proof (cases body)
    case (Inl e)
    with Reply assms show ?thesis by (simp add: nonzero_price_found_def price_found_def)
  next
    case (Inr positions_data)
    with Reply assms obtain h where
      m: "h \<in> set (holdings_of positions_data)"
      and y: "getd h ''symbol'' PNone = PStr symbol"
      and q: "(case py_float rd (getd h ''last_price'' (PNum 0)) of
                 Inl e \<Rightarrow> False | Inr p \<Rightarrow> p \<noteq> 0)"
      and c: "status_code = 200"
      by (auto simp: nonzero_price_found_def price_found_def list_ex_iff)
    from q obtain p where
      f: "py_float rd (getd h ''last_price'' (PNum 0)) = Inr p" and z: "p \<noteq> 0"
      by (cases "py_float rd (getd h ''last_price'' (PNum 0))") auto
    from z have "0 < p \<or> p < 0" by auto
    then show ?thesis
    proof
      assume "0 < p"
      with m y f c Reply Inr have "positive_price_found rd v self symbol"
        by (auto simp: positive_price_found_def price_found_def list_ex_iff)
      then show ?thesis ..
    next
      assume "p < 0"
      with m y f c Reply Inr have "negative_price_found rd v self symbol"
        by (auto simp: negative_price_found_def price_found_def list_ex_iff)
      then show ?thesis ..
    qed
  qed
qed

section \<open>Sizing a buy order\<close>

text \<open>
  Claim C1. \<open>buy(symbol, amount)\<close> is to submit \<open>max(1, floor(amount / price))\<close> shares,
  the price being the positive last price of the position held in the symbol and 50
  otherwise. Lines 202 to 217 compute that quantity, and line 219 assigns
  \<open>int(amount / last_price)\<close> over it. So with no position in AAPL, \<open>buy("AAPL", 1000)\<close>
  divides by \<open>None\<close>, returns false and sends no order, where the claim has 20 shares
  submitted; with a position priced at 100, \<open>buy("AAPL", 1000)\<close> submits 10 shares, as
  claimed; and \<open>buy("AAPL", 30)\<close> returns false and sends no order, where the claim has
  one share submitted.
\<close>

theorem buy_quantity_reassigned:
  "buy float_of_text (vendor aapl_instrument (positions []) no_balance order_accepted)
     example_broker ''AAPL'' 1000 =
     (Inr False, [GetInstrument ''AAPL'' ''US_STOCK'', GetAccountPosition (PStr ''ACC'')]) \<and>
   buy float_of_text
     (vendor aapl_instrument
        (positions [holding (PStr ''AAPL'') (PNum 3) (PNum 100) (PNum 300)])
        no_balance order_accepted)
     example_broker ''AAPL'' 1000 =
     (Inr True, [GetInstrument ''AAPL'' ''US_STOCK'', GetAccountPosition (PStr ''ACC''),
                 PlaceOrder (order ''BUY'' ''buy_AAPL_'' 10)]) \<and>
   buy float_of_text
     (vendor aapl_instrument
        (positions [holding (PStr ''AAPL'') (PNum 3) (PNum 100) (PNum 300)])
        no_balance order_accepted)
     example_broker ''AAPL'' 30 =
     (Inr False, [GetInstrument ''AAPL'' ''US_STOCK'', GetAccountPosition (PStr ''ACC'')])"
  by (simp add: buy_def get_instrument_id_def price_from_positions_def comp_defs
        vendor_def aapl_instrument_def order_accepted_def
        positions_def holding_def order_def example_broker_def getd_def holdings_of_def
        py_int_def floor_eq_iff)

text \<open>
  Claim C2. When no holding of the symbol with a positive last price is found from the
  positions endpoint, in the cases the claim lists (the positions request fails, no
  holding has the symbol, or those that have it are priced zero, so that none has a
  negative price either), \<open>buy\<close> returns false and sends no order: line 219 divides by
  \<open>None\<close> or by zero, and the outer handler returns false.
\<close>

theorem buy_without_positive_price:
  assumes "\<not> positive_price_found rd v self symbol"
    and "\<not> negative_price_found rd v self symbol"
  shows "fst (buy rd v self symbol amount) = Inr False \<and>
         (\<forall>so. PlaceOrder so \<notin> set (snd (buy rd v self symbol amount)))"
proof -
  from assms have n: "\<not> nonzero_price_found rd v self symbol"
    using nonzero_price_positive_or_negative by blast
  obtain iid where i: "get_instrument_id v symbol = (Inr iid, [GetInstrument symbol ''US_STOCK''])"
    using get_instrument_id_shape by blast
  obtain lp where p: "price_from_positions rd v self symbol =
                        (Inr lp, [GetAccountPosition (wb_account_id self)])"
    using price_from_positions_shape by blast
  from price_none_or_zero [OF n] p have "lp = None \<or> lp = Some 0" by simp
  then have d: "\<exists>e. py_truediv amount lp = Inl e" by auto
  show ?thesis
  proof (cases "truthy iid")
    case False
    with i show ?thesis by (simp add: buy_def try_except_def bind_def ret_def)
  next
    case True
    with i p d show ?thesis
      by (auto simp: buy_def try_except_def bind_def ret_def lift_def Let_def)
  qed
qed

text \<open>
  A witness, one environment for each case of the claim: no position at all, a position
  in AAPL priced zero, and a positions request answered with status 500. Each time
  \<open>buy("AAPL", 1000)\<close> returns false after the instrument and the position requests.
\<close>

theorem buy_without_positive_price_witness:
  "buy float_of_text
     (vendor aapl_instrument (positions []) no_balance order_accepted)
     example_broker ''AAPL'' 1000 =
     (Inr False, [GetInstrument ''AAPL'' ''US_STOCK'', GetAccountPosition (PStr ''ACC'')]) \<and>
   buy float_of_text
     (vendor aapl_instrument
        (positions [holding (PStr ''AAPL'') (PNum 3) (PNum 0) (PNum 0)])
        no_balance order_accepted)
     example_broker ''AAPL'' 1000 =
     (Inr False, [GetInstrument ''AAPL'' ''US_STOCK'', GetAccountPosition (PStr ''ACC'')]) \<and>
   buy float_of_text
     (vendor aapl_instrument (Reply 500 (Inr None)) no_balance order_accepted)
     example_broker ''AAPL'' 1000 =
     (Inr False, [GetInstrument ''AAPL'' ''US_STOCK'', GetAccountPosition (PStr ''ACC'')])"
proof -
  let ?a = "vendor aapl_instrument (positions []) no_balance order_accepted"
  let ?b = "vendor aapl_instrument
        (positions [holding (PStr ''AAPL'') (PNum 3) (PNum 0) (PNum 0)])
        no_balance order_accepted"
  let ?c = "vendor aapl_instrument (Reply 500 (Inr None)) no_balance order_accepted"
  have pa: "\<not> positive_price_found float_of_text ?a example_broker ''AAPL''"
    and na: "\<not> negative_price_found float_of_text ?a example_broker ''AAPL''"
    and pb: "\<not> positive_price_found float_of_text ?b example_broker ''AAPL''"
    and nb: "\<not> negative_price_found float_of_text ?b example_broker ''AAPL''"
    and pc: "\<not> positive_price_found float_of_text ?c example_broker ''AAPL''"
    and nc: "\<not> negative_price_found float_of_text ?c example_broker ''AAPL''"
    by (simp_all add: positive_price_found_def negative_price_found_def price_found_def
          vendor_def positions_def holding_def example_broker_def getd_def holdings_of_def)
  have t: "snd (buy float_of_text ?a example_broker ''AAPL'' 1000) =
             [GetInstrument ''AAPL'' ''US_STOCK'', GetAccountPosition (PStr ''ACC'')]"
          "snd (buy float_of_text ?b example_broker ''AAPL'' 1000) =
             [GetInstrument ''AAPL'' ''US_STOCK'', GetAccountPosition (PStr ''ACC'')]"
          "snd (buy float_of_text ?c example_broker ''AAPL'' 1000) =
             [GetInstrument ''AAPL'' ''US_STOCK'', GetAccountPosition (PStr ''ACC'')]"
    by (simp_all add: buy_def get_instrument_id_def price_from_positions_def comp_defs
          vendor_def aapl_instrument_def positions_def holding_def example_broker_def
          getd_def holdings_of_def)
  from buy_without_positive_price [OF pa na, of 1000]
       buy_without_positive_price [OF pb nb, of 1000]
       buy_without_positive_price [OF pc nc, of 1000]
  have "fst (buy float_of_text ?a example_broker ''AAPL'' 1000) = Inr False"
       "fst (buy float_of_text ?b example_broker ''AAPL'' 1000) = Inr False"
       "fst (buy float_of_text ?c example_broker ''AAPL'' 1000) = Inr False"
    by blast+
  with t show ?thesis by (simp add: prod_eq_iff)
qed

section \<open>Exceptions of the vendor client in buy and sell\<close>




section \<open>Account cash\<close>

text \<open>
  Claim C4, as amended. When the balance endpoint answers with success,
  \<open>get_account_cash\<close> returns \<open>float\<close> of the first true value (a non-zero number or a
  non-empty text) among \<open>stock_power\<close>, \<open>available_to_withdraw\<close>, \<open>settled_cash\<close> and
  \<open>total_cash\<close>, in that order, and 0.0 when there is none. Where these fields hold
  numbers, or \<open>None\<close>, or are absent, that is the first non-zero value among them.
\<close>

theorem get_account_cash_first_truthy:
  assumes "get_account_balance v (wb_account_id self) = Reply 200 (Inr balance_data)"
  shows "get_account_cash rd v self =
           (py_float rd (first_truthy (cash_values balance_data)),
            [GetAccountBalance (wb_account_id self)]) \<and>
         (list_all number_or_none (cash_values balance_data) \<longrightarrow>
            fst (get_account_cash rd v self) =
              Inr (first_nonzero (map (reading rd) (cash_values balance_data))))"
proof -
  have c: "get_account_cash rd v self =
           (py_float rd (first_truthy (cash_values balance_data)),
            [GetAccountBalance (wb_account_id self)])"
    using assms
    by (cases "py_float rd (first_truthy (cash_values balance_data))")
       (simp_all add: get_account_cash_def comp_defs py_or_chain cash_values_def cash_fields_def)
  with first_truthy_numbers [of "cash_values balance_data" rd] show ?thesis by simp
qed

text \<open>
  A witness, the example of the specification: with a settled cash of 500, a total cash
  of 1000 and neither of the other two fields, the cash is 500.
\<close>

theorem get_account_cash_first_truthy_witness:
  "get_account_balance
     (vendor aapl_instrument (positions []) (balance settled_and_total) order_accepted)
     (wb_account_id example_broker) = Reply 200 (Inr settled_and_total) \<and>
   list_all number_or_none (cash_values settled_and_total) \<and>
   get_account_cash float_of_text
     (vendor aapl_instrument (positions []) (balance settled_and_total) order_accepted)
     example_broker = (Inr 500, [GetAccountBalance (PStr ''ACC'')])"
proof -
  let ?v = "vendor aapl_instrument (positions []) (balance settled_and_total) order_accepted"
  have h: "get_account_balance ?v (wb_account_id example_broker) = Reply 200 (Inr settled_and_total)"
    by (simp add: vendor_def balance_def)
  have n: "list_all number_or_none (cash_values settled_and_total)"
    by (simp add: cash_values_def cash_fields_def settled_and_total_def getd_def)
  have f: "first_nonzero (map (reading float_of_text) (cash_values settled_and_total)) = 500"
    by (simp add: cash_values_def cash_fields_def settled_and_total_def getd_def reading_def)
  from get_account_cash_first_truthy [OF h, of float_of_text] n
  have c: "get_account_cash float_of_text ?v example_broker =
             (py_float float_of_text (first_truthy (cash_values settled_and_total)),
              [GetAccountBalance (wb_account_id example_broker)])"
    and d: "fst (get_account_cash float_of_text ?v example_broker) =
              Inr (first_nonzero (map (reading float_of_text) (cash_values settled_and_total)))"
    by blast+
  from c d f have "py_float float_of_text (first_truthy (cash_values settled_and_total)) = Inr 500"
    by simp
  with c h n show ?thesis by (simp add: example_broker_def)
qed

text \<open>
  Claim C4 as stated fails where a field holds text: the buying power \<open>"0.00"\<close> is a
  non-empty string, hence true, and the cash returned is 0.0, while the first non-zero
  value among the fields is the settled cash of 500.
\<close>

theorem get_account_cash_zero_text_counterexample:
  "fst (get_account_cash float_of_text
     (vendor aapl_instrument (positions []) (balance zero_text_power) order_accepted)
     example_broker) = Inr 0 \<and>
   first_nonzero (map (reading float_of_text) (cash_values zero_text_power)) = 500"
  by (simp add: get_account_cash_def comp_defs py_or_def vendor_def balance_def
        zero_text_power_def example_broker_def float_of_text_def getd_def cash_values_def
        cash_fields_def reading_def)

section \<open>The current allocation\<close>




text \<open>
  Claim C6. When the position request completes with a status code other than 200,
  \<open>get_current_allocation\<close> returns the empty sequence; when the vendor client raises
  on the request, that exception reaches the caller.
\<close>

theorem get_current_allocation_failures:
  "(get_account_position v (wb_account_id self) = Reply status_code body \<and> status_code \<noteq> 200 \<longrightarrow>
      get_current_allocation rd v self = (Inr [], [GetAccountPosition (wb_account_id self)])) \<and>
   (get_account_position v (wb_account_id self) = Raises e \<longrightarrow>
      get_current_allocation rd v self = (Inl e, [GetAccountPosition (wb_account_id self)]))"
  by (simp add: get_current_allocation_def comp_defs)

text \<open>A witness: a response with status 500, and a connection that is reset.\<close>

theorem get_current_allocation_failures_witness:
  "get_current_allocation float_of_text
     (vendor aapl_instrument (Reply 500 (Inr None)) no_balance order_accepted)
     example_broker = (Inr [], [GetAccountPosition (PStr ''ACC'')]) \<and>
   get_current_allocation float_of_text
     (vendor aapl_instrument connection_reset no_balance order_accepted)
     example_broker =
     (Inl (ClientError ''connection reset''), [GetAccountPosition (PStr ''ACC'')])"
proof -
  have a: "get_account_position
             (vendor aapl_instrument (Reply 500 (Inr None)) no_balance order_accepted)
             (wb_account_id example_broker) = Reply 500 (Inr None) \<and> (500::int) \<noteq> 200"
    by (simp add: vendor_def)
  have b: "get_account_position
             (vendor aapl_instrument connection_reset no_balance order_accepted)
             (wb_account_id example_broker) = Raises (ClientError ''connection reset'')"
    by (simp add: vendor_def connection_reset_def)
  from get_current_allocation_failures
         [where v = "vendor aapl_instrument (Reply 500 (Inr None)) no_balance order_accepted"
            and self = example_broker and status_code = 500 and body = "Inr None"
            and rd = float_of_text] a
  have 1: "get_current_allocation float_of_text
     (vendor aapl_instrument (Reply 500 (Inr None)) no_balance order_accepted)
     example_broker = (Inr [], [GetAccountPosition (wb_account_id example_broker)])"
    by blast
  from get_current_allocation_failures
         [where v = "vendor aapl_instrument connection_reset no_balance order_accepted"
            and self = example_broker and e = "ClientError ''connection reset''"
            and rd = float_of_text] b
  have 2: "get_current_allocation float_of_text
     (vendor aapl_instrument connection_reset no_balance order_accepted)
     example_broker =
     (Inl (ClientError ''connection reset''), [GetAccountPosition (wb_account_id example_broker)])"
    by blast
  from 1 2 show ?thesis by (simp add: example_broker_def)
qed

section \<open>The factory\<close>

text \<open>
  Claim C7. For a configuration whose broker type is none of \<open>alpaca\<close>, \<open>robinhood\<close>
  and \<open>webull\<close>, \<open>create_broker\<close> raises \<open>ValueError\<close>; no constructor of an adapter is
  entered and no request is sent.
\<close>

theorem create_broker_unsupported:
  assumes "broker_type c \<noteq> PStr ''alpaca''" and "broker_type c \<noteq> PStr ''robinhood''"
    and "broker_type c \<noteq> PStr ''webull''"
  shows "create_broker alpaca_init robinhood_init v c = (Inl ValueError, [])"
  using assms by (simp add: create_broker_def throw_def)

text \<open>A witness: the broker type \<open>etrade\<close>.\<close>

theorem create_broker_unsupported_witness:
  "broker_type (example_config (PStr ''etrade'') (PStr ''KEY'') (PStr ''SECRET'')) \<noteq> PStr ''alpaca'' \<and>
   broker_type (example_config (PStr ''etrade'') (PStr ''KEY'') (PStr ''SECRET'')) \<noteq> PStr ''robinhood'' \<and>
   broker_type (example_config (PStr ''etrade'') (PStr ''KEY'') (PStr ''SECRET'')) \<noteq> PStr ''webull'' \<and>
   create_broker other_init other_init
     (vendor aapl_instrument (positions []) no_balance order_accepted)
     (example_config (PStr ''etrade'') (PStr ''KEY'') (PStr ''SECRET'')) =
     (Inl ValueError, [])"
proof -
  let ?c = "example_config (PStr ''etrade'') (PStr ''KEY'') (PStr ''SECRET'')"
  have a: "broker_type ?c \<noteq> PStr ''alpaca''" and r: "broker_type ?c \<noteq> PStr ''robinhood''"
    and w: "broker_type ?c \<noteq> PStr ''webull''"
    by (simp_all add: example_config_def)
  from create_broker_unsupported [OF a r w] a r w show ?thesis by simp
qed

text \<open>
  Claim C8. For a configuration of broker type \<open>webull\<close> whose app key or app secret is
  absent (\<open>None\<close> or empty), \<open>create_broker\<close> raises \<open>ValueError\<close> before the constructor
  of the Webull adapter is entered and before any request is sent; with both present
  the constructor is entered first, and the requests of the account discovery follow.
\<close>

theorem create_broker_webull_credentials:
  assumes "broker_type c = PStr ''webull''"
  shows "(\<not> truthy (webull_app_key c) \<or> \<not> truthy (webull_app_secret c) \<longrightarrow>
            create_broker alpaca_init robinhood_init v c = (Inl ValueError, [])) \<and>
         (truthy (webull_app_key c) \<and> truthy (webull_app_secret c) \<longrightarrow>
            (\<exists>r t. create_broker alpaca_init robinhood_init v c =
                     (r, Construct ''WebullBroker'' # t)))"
  using assms by (auto simp: create_broker_def enter_def comp_defs split: prod.splits sum.splits)

text \<open>
  A witness: without a key, and with an empty secret, nothing is sent; with both, and
  a vendor that knows no account, the error comes after the two discovery requests.
\<close>

theorem create_broker_webull_credentials_witness:
  "create_broker other_init other_init
     (vendor aapl_instrument (positions []) no_balance order_accepted)
     (example_config (PStr ''webull'') PNone (PStr ''SECRET'')) = (Inl ValueError, []) \<and>
   create_broker other_init other_init
     (vendor aapl_instrument (positions []) no_balance order_accepted)
     (example_config (PStr ''webull'') (PStr ''KEY'') (PStr [])) = (Inl ValueError, []) \<and>
   create_broker other_init other_init
     (vendor aapl_instrument (positions []) no_balance order_accepted)
     (example_config (PStr ''webull'') (PStr ''KEY'') (PStr ''SECRET'')) =
     (Inl ValueError, [Construct ''WebullBroker'', GetAppSubscriptions, GetAccountList []])"
proof -
  let ?v = "vendor aapl_instrument (positions []) no_balance order_accepted"
  let ?k = "example_config (PStr ''webull'') PNone (PStr ''SECRET'')"
  let ?s = "example_config (PStr ''webull'') (PStr ''KEY'') (PStr [])"
  let ?b = "example_config (PStr ''webull'') (PStr ''KEY'') (PStr ''SECRET'')"
  have tk: "broker_type ?k = PStr ''webull''" and ts: "broker_type ?s = PStr ''webull''"
    and tb: "broker_type ?b = PStr ''webull''"
    by (simp_all add: example_config_def)
  have k: "\<not> truthy (webull_app_key ?k) \<or> \<not> truthy (webull_app_secret ?k)"
    by (simp add: example_config_def)
  have s: "\<not> truthy (webull_app_key ?s) \<or> \<not> truthy (webull_app_secret ?s)"
    by (simp add: example_config_def)
  have b: "truthy (webull_app_key ?b) \<and> truthy (webull_app_secret ?b)"
    by (simp add: example_config_def)
  from create_broker_webull_credentials [OF tk, of other_init other_init ?v] k
  have 1: "create_broker other_init other_init ?v ?k = (Inl ValueError, [])" by blast
  from create_broker_webull_credentials [OF ts, of other_init other_init ?v] s
  have 2: "create_broker other_init other_init ?v ?s = (Inl ValueError, [])" by blast
  from create_broker_webull_credentials [OF tb, of other_init other_init ?v] b
  obtain r t where 3: "create_broker other_init other_init ?v ?b = (r, Construct ''WebullBroker'' # t)"
    by blast
  have "create_broker other_init other_init ?v ?b =
     (Inl ValueError, [Construct ''WebullBroker'', GetAppSubscriptions, GetAccountList []])"
    using 3 by (simp add: create_broker_def webull_init_def enter_def comp_defs vendor_def
          example_config_def)
  with 1 2 show ?thesis by simp
qed

section \<open>Selling\<close>

text \<open>
  Claim C9. When the instrument lookup of \<open>sell(symbol, quantity)\<close> yields no instrument
  identifier, \<open>sell\<close> returns false and has sent the lookup request only: no order is
  submitted.
\<close>

theorem sell_unresolved:
  assumes "get_instrument_id v symbol = (Inr instrument_id, t)" and "\<not> truthy instrument_id"
  shows "sell v self symbol quantity = (Inr False, [GetInstrument symbol ''US_STOCK'']) \<and>
         (\<forall>so. PlaceOrder so \<notin> set (snd (sell v self symbol quantity)))"
proof -
  from get_instrument_id_shape [of v symbol] assms(1)
  have t: "t = [GetInstrument symbol ''US_STOCK'']" by auto
  have "sell v self symbol quantity = (Inr False, t)"
    using assms by (simp add: sell_def try_except_def bind_def ret_def)
  with t show ?thesis by simp
qed

text \<open>
  A witness, the example of the specification: the vendor knows no instrument for AAPL,
  and \<open>sell("AAPL", 5)\<close> returns false.
\<close>

theorem sell_unresolved_witness:
  "get_instrument_id
     (vendor (Reply 200 (Inr [])) (positions []) no_balance order_accepted) ''AAPL'' =
     (Inr PNone, [GetInstrument ''AAPL'' ''US_STOCK'']) \<and>
   \<not> truthy PNone \<and>
   sell (vendor (Reply 200 (Inr [])) (positions []) no_balance order_accepted)
     example_broker ''AAPL'' (Finite 5) = (Inr False, [GetInstrument ''AAPL'' ''US_STOCK''])"
proof -
  have h: "get_instrument_id
     (vendor (Reply 200 (Inr [])) (positions []) no_balance order_accepted) ''AAPL'' =
     (Inr PNone, [GetInstrument ''AAPL'' ''US_STOCK''])"
    by (simp add: get_instrument_id_def comp_defs vendor_def)
  have n: "\<not> truthy PNone" by simp
  from sell_unresolved [OF h n, of example_broker "Finite 5"] h show ?thesis by simp
qed

text \<open>
  Claim C10, as amended. \<open>sell\<close> does not validate the quantity: whenever the
  instrument lookup yields an identifier and the quantity is finite, be it positive,
  zero or negative, it submits one market order for the day, on the side \<open>SELL\<close>, whose
  \<open>qty\<close> is the quantity truncated toward zero. For an infinite quantity and for NaN,
  \<open>int(quantity)\<close> raises, and \<open>sell\<close> returns false without an order.
\<close>

theorem sell_finite_submits_truncated:
  assumes "get_instrument_id v symbol = (Inr instrument_id, t)" and "truthy instrument_id"
  shows "snd (sell v self symbol (Finite q)) =
           [GetInstrument symbol ''US_STOCK'',
            PlaceOrder \<lparr> o_account_id = wb_account_id self,
                  o_client_order_id = ''sell_'' @ symbol @ ''_'' @ take 16 (uuid4_hex v),
                  o_instrument_id = instrument_id, o_side = ''SELL'', o_tif = ''DAY'',
                  o_order_type = ''MARKET'',
                  o_qty = (if 0 \<le> q then \<lfloor>q\<rfloor> else \<lceil>q\<rceil>) \<rparr>] \<and>
         sell v self symbol PosInf = (Inr False, [GetInstrument symbol ''US_STOCK'']) \<and>
         sell v self symbol NegInf = (Inr False, [GetInstrument symbol ''US_STOCK'']) \<and>
         sell v self symbol NaN = (Inr False, [GetInstrument symbol ''US_STOCK''])"
proof -
  let ?so = "\<lparr> o_account_id = wb_account_id self,
                  o_client_order_id = ''sell_'' @ symbol @ ''_'' @ take 16 (uuid4_hex v),
                  o_instrument_id = instrument_id, o_side = ''SELL'', o_tif = ''DAY'',
                  o_order_type = ''MARKET'',
                  o_qty = py_int q \<rparr>"
  from get_instrument_id_shape [of v symbol] assms(1)
  have t: "t = [GetInstrument symbol ''US_STOCK'']" by auto
  have f: "snd (sell v self symbol (Finite q)) = [GetInstrument symbol ''US_STOCK'', PlaceOrder ?so]"
    using assms t
    by (cases "place_order_v2 v ?so")
       (auto simp: sell_def try_except_def bind_def ret_def lift_def Let_def split: sum.splits)
  have n: "sell v self symbol PosInf = (Inr False, [GetInstrument symbol ''US_STOCK''])"
          "sell v self symbol NegInf = (Inr False, [GetInstrument symbol ''US_STOCK''])"
          "sell v self symbol NaN = (Inr False, [GetInstrument symbol ''US_STOCK''])"
    using assms t by (simp_all add: sell_def comp_defs)
  from f n show ?thesis by (simp add: py_int_def)
qed

text \<open>
  A witness: selling -7/2 shares of AAPL submits an order for -3 shares, selling zero
  shares submits an order for zero shares, and selling infinitely many returns false.
\<close>

theorem sell_finite_submits_truncated_witness:
  "get_instrument_id
     (vendor aapl_instrument (positions []) no_balance order_accepted) ''AAPL'' =
     (Inr (PStr ''AAPL-ID''), [GetInstrument ''AAPL'' ''US_STOCK'']) \<and>
   truthy (PStr ''AAPL-ID'') \<and>
   snd (sell (vendor aapl_instrument (positions []) no_balance order_accepted)
          example_broker ''AAPL'' (Finite (- 7 / 2))) =
     [GetInstrument ''AAPL'' ''US_STOCK'', PlaceOrder (order ''SELL'' ''sell_AAPL_'' (- 3))] \<and>
   snd (sell (vendor aapl_instrument (positions []) no_balance order_accepted)
          example_broker ''AAPL'' (Finite 0)) =
     [GetInstrument ''AAPL'' ''US_STOCK'', PlaceOrder (order ''SELL'' ''sell_AAPL_'' 0)] \<and>
   sell (vendor aapl_instrument (positions []) no_balance order_accepted)
     example_broker ''AAPL'' PosInf = (Inr False, [GetInstrument ''AAPL'' ''US_STOCK''])"
proof -
  let ?v = "vendor aapl_instrument (positions []) no_balance order_accepted"
  have h: "get_instrument_id ?v ''AAPL'' =
             (Inr (PStr ''AAPL-ID''), [GetInstrument ''AAPL'' ''US_STOCK''])"
    by (simp add: get_instrument_id_def comp_defs vendor_def aapl_instrument_def getd_def)
  have y: "truthy (PStr ''AAPL-ID'')" by simp
  have c: "\<lceil>(- 7 / 2 :: rat)\<rceil> = - 3" by (simp add: ceiling_eq_iff)
  from sell_finite_submits_truncated [OF h y, of example_broker "- 7 / 2"]
       sell_finite_submits_truncated [OF h y, of example_broker 0] h y c
  show ?thesis by (simp add: order_def example_broker_def vendor_def)
qed

text \<open>
  Claim C10 as stated fails for a quantity that is NaN: the instrument lookup yields an
  identifier, \<open>int(quantity)\<close> raises \<open>ValueError\<close> at line 156, and \<open>sell\<close> returns false
  without submitting an order.
\<close>

theorem sell_nan_counterexample:
  "get_instrument_id
     (vendor aapl_instrument (positions []) no_balance order_accepted) ''AAPL'' =
     (Inr (PStr ''AAPL-ID''), [GetInstrument ''AAPL'' ''US_STOCK'']) \<and>
   truthy (PStr ''AAPL-ID'') \<and>
   sell (vendor aapl_instrument (positions []) no_balance order_accepted)
     example_broker ''AAPL'' NaN = (Inr False, [GetInstrument ''AAPL'' ''US_STOCK''])"
  by (simp add: sell_def get_instrument_id_def comp_defs vendor_def aapl_instrument_def
        getd_def)

end
